theory Spec2Isabelle
  imports Main
begin

section \<open>Data model of App.tsx\<close>

text \<open>
  The component state of \<open>App\<close> lives in \<open>useState\<close> hooks; the model threads it through
  every operation as a record. JavaScript strings are sequences of UTF-16 code units;
  they are modelled as \<open>string\<close>, one \<open>char\<close> standing for one code unit, so that
  \<open>length\<close> is \<open>.length\<close> and \<open>take 100\<close> is \<open>.substring(0, 100)\<close>.
\<close>

record system_status =
  live_tracking_active :: bool
  last_analysis_time :: string
  frames_captured :: int
  status_timestamp :: string

text \<open>
  \<open>AnomalyData & { success: boolean }\<close>: the object the server sends is stored whole by
  \<open>setAnomalyData(data)\<close>, the \<open>success\<close> field included. A \<open>null\<close> timestamp is \<open>None\<close>.
\<close>

record anomaly_data =
  success :: bool
  has_anomaly :: bool
  report :: string
  timestamp :: "string option"

datatype notification_type = Anomaly | Info

record notification =
  nid :: string
  time :: string
  message :: string
  ntype :: notification_type

text \<open>One element of the array served by \<open>/api/get-custom-anomalies\<close>.\<close>

record custom =
  anomaly :: string
  custom_timestamp :: "string option"

text \<open>
  \<open>Alert.alert(title, message, buttons)\<close> is an effect on the user interface. The model
  logs every call, oldest first, in the field \<open>alerts\<close>, as the pair of title and text.
\<close>

record app_state =
  systemStatus :: "system_status option"
  anomalyData :: "anomaly_data option"
  notifications :: "notification list"
  alerts :: "(string \<times> string) list"

definition initial_state :: app_state where
  "initial_state = \<lparr>systemStatus = None, anomalyData = None, notifications = [], alerts = []\<rparr>"

text \<open>
  What one call of \<open>addNotification\<close> reads from its environment: the clock
  (\<open>Date.now()\<close>, milliseconds since the epoch), and the two locale renderings
  \<open>new Date(ts).toLocaleTimeString(...)\<close> and \<open>new Date().toLocaleTimeString(...)\<close>.
\<close>

record runtime =
  date_now :: nat
  time_of_timestamp :: "string \<Rightarrow> string"
  time_of_now :: string

text \<open>
  The outcome of \<open>await fetch(...)\<close>: the promise rejects (a transport error, control
  passes to \<open>catch\<close>), or it resolves to a response with its \<open>ok\<close> flag, whatever the
  HTTP status. \<open>json = None\<close> stands for a body that \<open>response.json()\<close> cannot parse,
  which rejects as well.
\<close>

datatype 'a response = Response (ok: bool) (json: "'a option")

datatype 'a fetch_result = Rejected | Resolved "'a response"

text \<open>The parsed body of the custom-anomaly endpoint: any JSON value, an array or not.\<close>

datatype 'a json_body = NonArray | JArray "'a list"

section \<open>Operations\<close>

text \<open>\<open>Number.prototype.toString()\<close> on a non-negative integer: its decimal digits.\<close>

fun toString :: "nat \<Rightarrow> string" where
  "toString n =
     (if n < 10 then [''0123456789'' ! n]
      else toString (n div 10) @ [''0123456789'' ! (n mod 10)])"

declare toString.simps [simp del]

text \<open>
  The \<open>time\<close> field, lines 101-103: a timestamp is used when it is truthy, that is neither
  \<open>undefined\<close>, \<open>null\<close> nor the empty string.
\<close>

definition display_time :: "runtime \<Rightarrow> string option \<Rightarrow> string" where
  "display_time rt ts =
     (case ts of
        None \<Rightarrow> time_of_now rt
      | Some s \<Rightarrow> if s \<noteq> [] then time_of_timestamp rt s else time_of_now rt)"

text \<open>
  The object literal \<open>newNotification\<close>, lines 99-106. Its \<open>message\<close> is
  \<open>message.substring(0, 100) + (message.length > 100 ? '...' : '')\<close>.
\<close>

definition newNotification ::
  "runtime \<Rightarrow> string \<Rightarrow> string option \<Rightarrow> bool \<Rightarrow> notification" where
  "newNotification rt msg ts isCustom =
     \<lparr>nid = toString (date_now rt),
      time = display_time rt ts,
      message = take 100 msg @ (if length msg > 100 then ''...'' else []),
      ntype = (if isCustom then Info else Anomaly)\<rparr>"

text \<open>
  \<open>addNotification\<close>, lines 98-117. The functional update of \<open>setNotifications\<close> is applied
  to the list of the state passed in; \<open>prev.some(...)\<close> is \<open>list_ex\<close>,
  \<open>prev.slice(0, 9)\<close> is \<open>take 9\<close>. The alert follows the update, outside it.
\<close>

definition addNotification ::
  "runtime \<Rightarrow> string \<Rightarrow> string option \<Rightarrow> bool \<Rightarrow> app_state \<Rightarrow> app_state" where
  "addNotification rt msg ts isCustom st =
     (let n = newNotification rt msg ts isCustom;
          prev = notifications st
      in st\<lparr>notifications :=
              (if list_ex (\<lambda>m. message m = message n) prev then prev
               else n # take 9 prev),
            alerts := alerts st @
              [(if isCustom then ''Custom Anomaly Detected!'' else ''Anomaly Detected!'', msg)]\<rparr>)"

text \<open>
  \<open>fetchSystemStatus\<close>, lines 50-60. A rejected fetch, a response that is not \<open>ok\<close> and
  a body that does not parse all leave the state as it is (the \<open>catch\<close> only logs).
\<close>

definition fetchSystemStatus :: "system_status fetch_result \<Rightarrow> app_state \<Rightarrow> app_state" where
  "fetchSystemStatus r st =
     (case r of
        Rejected \<Rightarrow> st
      | Resolved resp \<Rightarrow>
          if ok resp then
            (case json resp of
               None \<Rightarrow> st
             | Some data \<Rightarrow> st\<lparr>systemStatus := Some data\<rparr>)
          else st)"

text \<open>
  \<open>fetchAnomalyData\<close>, lines 63-77. \<open>data.report\<close> is truthy when the string is not empty.
\<close>

definition fetchAnomalyData ::
  "runtime \<Rightarrow> anomaly_data fetch_result \<Rightarrow> app_state \<Rightarrow> app_state" where
  "fetchAnomalyData rt r st =
     (case r of
        Rejected \<Rightarrow> st
      | Resolved resp \<Rightarrow>
          if ok resp then
            (case json resp of
               None \<Rightarrow> st
             | Some data \<Rightarrow>
                 let st1 = st\<lparr>anomalyData := Some data\<rparr>
                 in if success data \<and> has_anomaly data \<and> report data \<noteq> []
                    then addNotification rt (report data) (timestamp data) False st1
                    else st1)
          else st)"

text \<open>
  \<open>fetchCustomAnomalies\<close>, lines 80-95. \<open>forEach\<close> visits the array in order; the call
  for the element at index \<open>i\<close> reads the environment \<open>rts i\<close>.
\<close>

definition fetchCustomAnomalies ::
  "(nat \<Rightarrow> runtime) \<Rightarrow> custom json_body fetch_result \<Rightarrow> app_state \<Rightarrow> app_state" where
  "fetchCustomAnomalies rts r st =
     (case r of
        Rejected \<Rightarrow> st
      | Resolved resp \<Rightarrow>
          if ok resp then
            (case json resp of
               None \<Rightarrow> st
             | Some NonArray \<Rightarrow> st
             | Some (JArray data) \<Rightarrow>
                 if length data > 0 then
                   fold (\<lambda>(i, c). addNotification (rts i) (anomaly c) (custom_timestamp c) True)
                     (enumerate 0 data) st
                 else st)
          else st)"

text \<open>
  \<open>clearAnomalyFlag\<close>, lines 120-127. The state update stands after \<open>await fetch(...)\<close>
  inside the \<open>try\<close> block; the response is not inspected.
\<close>

definition clearAnomalyFlag :: "'a fetch_result \<Rightarrow> app_state \<Rightarrow> app_state" where
  "clearAnomalyFlag r st =
     (case r of
        Rejected \<Rightarrow> st
      | Resolved resp \<Rightarrow>
          st\<lparr>anomalyData :=
               (case anomalyData st of
                  Some prev \<Rightarrow> Some (prev\<lparr>has_anomaly := False\<rparr>)
                | None \<Rightarrow> None)\<rparr>)"

text \<open>
  The two ingestion operations are the two ways \<open>addNotification\<close> is called: with
  \<open>isCustom\<close> left at its default \<open>false\<close> (line 71) and with \<open>true\<close> (line 88). A run is
  a sequence of such calls, each with the environment it reads.
\<close>

datatype ingestion =
    ingestAnomaly runtime string "string option"
  | ingestCustomAnomaly runtime string "string option"

fun ingest :: "ingestion \<Rightarrow> app_state \<Rightarrow> app_state" where
  "ingest (ingestAnomaly rt r ts) st = addNotification rt r ts False st"
| "ingest (ingestCustomAnomaly rt r ts) st = addNotification rt r ts True st"

definition run :: "ingestion list \<Rightarrow> app_state \<Rightarrow> app_state" where
  "run calls st = fold ingest calls st"

text \<open>A fixed environment for concrete runs.\<close>

definition rt0 :: runtime where
  "rt0 = \<lparr>date_now = 1700000000000, time_of_timestamp = (\<lambda>s. s), time_of_now = ''09:30''\<rparr>"

text \<open>
  The state after the ten distinct live reports \<open>1\<close> to \<open>10\<close> (the decimal strings of the
  numbers): a list that is full.
\<close>

definition full_state :: app_state where
  "full_state =
     run (map (\<lambda>i. ingestAnomaly rt0 (toString i) None) [1..<11]) initial_state"

section \<open>Basic facts about \<open>addNotification\<close>\<close>

lemma addNotification_notifications:
  "notifications (addNotification rt r ts c st) =
     (if list_ex (\<lambda>m. message m = message (newNotification rt r ts c)) (notifications st)
      then notifications st
      else newNotification rt r ts c # take 9 (notifications st))"
  by (simp add: addNotification_def Let_def)

lemma addNotification_alerts:
  "alerts (addNotification rt r ts c st) =
     alerts st @ [(if c then ''Custom Anomaly Detected!'' else ''Anomaly Detected!'', r)]"
  by (simp add: addNotification_def Let_def)

lemma addNotification_snapshots:
  "anomalyData (addNotification rt r ts c st) = anomalyData st"
  "systemStatus (addNotification rt r ts c st) = systemStatus st"
  by (simp_all add: addNotification_def Let_def)

lemma message_newNotification:
  "message (newNotification rt r ts c) = take 100 r @ (if length r > 100 then ''...'' else [])"
  by (simp add: newNotification_def)

text \<open>After a call, a notification with the call's message is in the list, new or old.\<close>

lemma addNotification_retains:
  "list_ex (\<lambda>m. message m = message (newNotification rt r ts c))
     (notifications (addNotification rt' r ts' c' st))"
  by (simp add: addNotification_notifications message_newNotification)

lemma list_ex_message:
  "list_ex (\<lambda>m. message m = x) xs \<longleftrightarrow> x \<in> set (map message xs)"
  by (force simp: list_ex_iff)

text \<open>The list of messages after a call, as a function of the list of messages before.\<close>

lemma messages_addNotification:
  "map message (notifications (addNotification rt r ts c st)) =
     (let m = take 100 r @ (if length r > 100 then ''...'' else [])
      in if m \<in> set (map message (notifications st)) then map message (notifications st)
         else m # take 9 (map message (notifications st)))"
  by (simp add: addNotification_notifications message_newNotification list_ex_message
        Let_def take_map)

text \<open>The decimal strings of small numbers, as the runs below use them for reports.\<close>

lemma toString_small:
  "toString 3 = ''3''" "toString 12 = ''12''"
  by (simp_all add: toString.simps)

lemma messages_full_state:
  "map message (notifications full_state) =
     [''10'', ''9'', ''8'', ''7'', ''6'', ''5'', ''4'', ''3'', ''2'', ''1'']"
  unfolding full_state_def run_def
  apply (simp add: upt_rec)
  apply (simp add: messages_addNotification initial_state_def toString.simps)
  done

subsection \<open>The cap of ten entries is preserved\<close>

lemma addNotification_length_le:
  "length (notifications st) \<le> 10 \<Longrightarrow>
   length (notifications (addNotification rt r ts c st)) \<le> 10"
  by (simp add: addNotification_notifications)

lemma ingest_length_le:
  "length (notifications st) \<le> 10 \<Longrightarrow> length (notifications (ingest call st)) \<le> 10"
  by (cases call) (simp_all add: addNotification_length_le)

lemma run_length_le:
  "length (notifications st) \<le> 10 \<Longrightarrow> length (notifications (run calls st)) \<le> 10"
  unfolding run_def
  by (induction calls arbitrary: st) (simp_all add: ingest_length_le)

subsection \<open>Distinct messages are preserved\<close>

lemma addNotification_distinct:
  assumes "distinct (map message (notifications st))"
  shows "distinct (map message (notifications (addNotification rt r ts c st)))"
proof (cases "list_ex (\<lambda>m. message m = message (newNotification rt r ts c)) (notifications st)")
  case True
  then show ?thesis using assms by (simp add: addNotification_notifications)
next
  case False
  then have "message (newNotification rt r ts c) \<notin> message ` set (notifications st)"
    by (auto simp: list_ex_iff)
  moreover have "set (take 9 (notifications st)) \<subseteq> set (notifications st)"
    by (rule set_take_subset)
  ultimately have
    "message (newNotification rt r ts c) \<notin> message ` set (take 9 (notifications st))"
    by blast
  moreover have "distinct (map message (take 9 (notifications st)))"
    using assms by (simp add: take_map [symmetric])
  ultimately show ?thesis using False
    by (simp add: addNotification_notifications)
qed

lemma ingest_distinct:
  "distinct (map message (notifications st)) \<Longrightarrow>
   distinct (map message (notifications (ingest call st)))"
  by (cases call) (simp_all add: addNotification_distinct)

lemma run_distinct:
  "distinct (map message (notifications st)) \<Longrightarrow>
   distinct (map message (notifications (run calls st)))"
  unfolding run_def
  by (induction calls arbitrary: st) (simp_all add: ingest_distinct)

lemma filter_distinct_one:
  "distinct (map f xs) \<Longrightarrow> x \<in> set xs \<Longrightarrow> length (filter (\<lambda>y. f y = f x) xs) = 1"
proof (induction xs)
  case Nil
  then show ?case by simp
next
  case (Cons a xs)
  show ?case
  proof (cases "f a = f x")
    case True
    from Cons.prems(1) have "f a \<notin> f ` set xs" by simp
    with True have "\<forall>y\<in>set xs. f y \<noteq> f x" by (metis image_eqI)
    then have "filter (\<lambda>y. f y = f x) xs = []" by (simp add: filter_empty_conv)
    with True show ?thesis by simp
  next
    case False
    with Cons show ?thesis by auto
  qed
qed

section \<open>Repeated reports\<close>

text \<open>
  The list half of the guarantee for repeated reports holds on the code: a second call
  with the same report finds the message in the list and leaves the list as the first
  call left it, and on every list that a run from the empty list produces exactly one
  retained notification carries the report's message.
\<close>

lemma repeated_report_list_unchanged:
  "notifications (addNotification rt2 r ts2 c2 (addNotification rt1 r ts1 c1 st)) =
     notifications (addNotification rt1 r ts1 c1 st)"
proof -
  have "list_ex (\<lambda>m. message m = message (newNotification rt2 r ts2 c2))
      (notifications (addNotification rt1 r ts1 c1 st))"
    by (rule addNotification_retains)
  then show ?thesis by (simp add: addNotification_notifications)
qed

lemma repeated_report_retained_once:
  "length (filter (\<lambda>n. message n = message (newNotification rt1 r ts c))
     (notifications (addNotification rt2 r ts c
        (addNotification rt1 r ts c (run calls initial_state))))) = 1"
proof -
  let ?st1 = "addNotification rt1 r ts c (run calls initial_state)"
  let ?n = "newNotification rt1 r ts c"
  have "distinct (map message (notifications (run calls initial_state)))"
    by (rule run_distinct) (simp add: initial_state_def)
  then have d1: "distinct (map message (notifications ?st1))"
    by (rule addNotification_distinct)
  have "list_ex (\<lambda>m. message m = message ?n) (notifications ?st1)"
    by (rule addNotification_retains)
  then obtain x where x: "x \<in> set (notifications ?st1)" "message x = message ?n"
    by (auto simp: list_ex_iff)
  from filter_distinct_one [OF d1 x(1)] x(2)
  have "length (filter (\<lambda>n. message n = message ?n) (notifications ?st1)) = 1" by simp
  then show ?thesis by (simp only: repeated_report_list_unchanged)
qed

text \<open>
  C1. Calling \<open>addNotification\<close> twice in succession with the same report should produce
  exactly one retained notification and raise exactly one user-facing alert, the second
  call mutating nothing and alerting nothing. The code keeps the list half and misses
  the alert half: \<open>Alert.alert\<close> (lines 114-116) stands after \<open>setNotifications\<close>, outside
  the check commented \<open>prevent duplicate\<close> (line 109). Evaluated from the empty list at
  the report \<open>A\<close>: the two calls retain the one notification and log two alerts; the
  same happens when two polls of \<open>fetchAnomalyData\<close> receive the same snapshot, as the
  5 s poll does while an anomaly stays active.
\<close>

theorem duplicate_report_alerts_twice:
  "notifications (addNotification rt0 ''A'' None False
            (addNotification rt0 ''A'' None False initial_state)) =
     [newNotification rt0 ''A'' None False] \<and>
   alerts (addNotification rt0 ''A'' None False initial_state) =
     [(''Anomaly Detected!'', ''A'')] \<and>
   alerts (addNotification rt0 ''A'' None False
            (addNotification rt0 ''A'' None False initial_state)) =
     [(''Anomaly Detected!'', ''A''), (''Anomaly Detected!'', ''A'')] \<and>
   map message (notifications
     (fetchAnomalyData rt0 (Resolved (Response True
          (Some \<lparr>success = True, has_anomaly = True, report = ''A'', timestamp = None\<rparr>)))
       (fetchAnomalyData rt0 (Resolved (Response True
            (Some \<lparr>success = True, has_anomaly = True, report = ''A'', timestamp = None\<rparr>)))
          initial_state))) = [''A''] \<and>
   alerts
     (fetchAnomalyData rt0 (Resolved (Response True
          (Some \<lparr>success = True, has_anomaly = True, report = ''A'', timestamp = None\<rparr>)))
       (fetchAnomalyData rt0 (Resolved (Response True
            (Some \<lparr>success = True, has_anomaly = True, report = ''A'', timestamp = None\<rparr>)))
          initial_state)) =
     [(''Anomaly Detected!'', ''A''), (''Anomaly Detected!'', ''A'')]"
  by (simp add: fetchAnomalyData_def addNotification_alerts addNotification_notifications
        message_newNotification initial_state_def)

section \<open>Acknowledging the active anomaly\<close>

text \<open>
  C2, as stated: \<open>clearAnomalyFlag\<close> sets the local flag to false whatever the outcome of
  the POST, also when the POST fails with a transport error. On the code the claim
  fails: the update follows \<open>await fetch(...)\<close> inside \<open>try\<close>, so a rejected fetch jumps
  to \<open>catch\<close> and the flag stays true.
\<close>

theorem acknowledge_rejected_keeps_flag:
  "anomalyData (clearAnomalyFlag (Rejected :: unit fetch_result)
     (initial_state\<lparr>anomalyData :=
        Some \<lparr>success = True, has_anomaly = True, report = ''Intruder'', timestamp = None\<rparr>\<rparr>)) =
   Some \<lparr>success = True, has_anomaly = True, report = ''Intruder'', timestamp = None\<rparr>"
  by (simp add: clearAnomalyFlag_def)

text \<open>
  C2, amended. \<open>clearAnomalyFlag\<close> sets the local \<open>has_anomaly\<close> flag of a present
  snapshot to false once the POST has completed with a response, whatever the response
  (its status is not inspected); when the POST fails with a transport error the local
  state is left unchanged.
\<close>

theorem acknowledge_after_response:
  "(anomalyData st = Some a \<longrightarrow>
      anomalyData (clearAnomalyFlag (Resolved (resp :: 'r response)) st) =
        Some (a\<lparr>has_anomaly := False\<rparr>)) \<and>
   clearAnomalyFlag (Rejected :: 'r fetch_result) st = st"
  by (simp add: clearAnomalyFlag_def)

theorem acknowledge_after_response_witness:
  "anomalyData (initial_state\<lparr>anomalyData :=
        Some \<lparr>success = True, has_anomaly = True, report = ''Intruder'', timestamp = None\<rparr>\<rparr>) =
     Some \<lparr>success = True, has_anomaly = True, report = ''Intruder'', timestamp = None\<rparr> \<and>
   anomalyData (clearAnomalyFlag (Resolved (Response False (None :: unit option)))
     (initial_state\<lparr>anomalyData :=
        Some \<lparr>success = True, has_anomaly = True, report = ''Intruder'', timestamp = None\<rparr>\<rparr>)) =
     Some \<lparr>success = True, has_anomaly = False, report = ''Intruder'', timestamp = None\<rparr>"
  using acknowledge_after_response
    [of "initial_state\<lparr>anomalyData :=
        Some \<lparr>success = True, has_anomaly = True, report = ''Intruder'', timestamp = None\<rparr>\<rparr>"
        "\<lparr>success = True, has_anomaly = True, report = ''Intruder'', timestamp = None\<rparr>"
        "Response False (None :: unit option)"]
  by simp

section \<open>Truncation of the stored message\<close>

text \<open>
  C3. For every report string, the stored notification message is the report verbatim,
  with no marker, when the report has at most 100 characters, and exactly the first 100
  characters of the report followed by the marker \<open>...\<close> when it has more than 100.
  The notification that \<open>addNotification\<close> puts at the head of the list is this one.
\<close>

theorem stored_message_truncation:
  "(length r \<le> 100 \<longrightarrow> message (newNotification rt r ts c) = r) \<and>
   (length r > 100 \<longrightarrow> message (newNotification rt r ts c) = take 100 r @ ''...'') \<and>
   (\<not> list_ex (\<lambda>m. message m = message (newNotification rt r ts c)) (notifications st) \<longrightarrow>
      hd (notifications (addNotification rt r ts c st)) = newNotification rt r ts c)"
  by (simp add: addNotification_def newNotification_def Let_def)

theorem stored_message_truncation_witness:
  "message (newNotification rt0 ''Person loitering near gate'' None False) =
     ''Person loitering near gate'' \<and>
   message (newNotification rt0 (replicate 101 CHR ''a'') None False) =
     replicate 100 CHR ''a'' @ ''...'' \<and>
   hd (notifications (addNotification rt0 ''Person loitering near gate'' None False initial_state)) =
     newNotification rt0 ''Person loitering near gate'' None False"
  using stored_message_truncation
          [of "''Person loitering near gate''" rt0 None False initial_state]
        stored_message_truncation
          [of "replicate 101 CHR ''a''" rt0 None False initial_state]
  by (simp add: initial_state_def)

section \<open>Invariants of the retained list\<close>

text \<open>
  C4. For every sequence of ingestion calls (\<open>ingestAnomaly\<close> and
  \<open>ingestCustomAnomaly\<close>), starting from the empty list, the retained notification list
  never exceeds 10 entries.
\<close>

theorem retained_list_bounded:
  "length (notifications (run calls initial_state)) \<le> 10"
  by (rule run_length_le) (simp add: initial_state_def)

theorem retained_list_bounded_witness:
  "length (notifications (run
     [ingestAnomaly rt0 ''A'' None, ingestCustomAnomaly rt0 ''B'' None, ingestAnomaly rt0 ''A'' None]
     initial_state)) = 2 \<and>
   length (notifications (run
     [ingestAnomaly rt0 ''A'' None, ingestCustomAnomaly rt0 ''B'' None, ingestAnomaly rt0 ''A'' None]
     initial_state)) \<le> 10"
proof -
  have "length (map message (notifications (run
     [ingestAnomaly rt0 ''A'' None, ingestCustomAnomaly rt0 ''B'' None, ingestAnomaly rt0 ''A'' None]
     initial_state))) = 2"
    by (simp add: run_def messages_addNotification initial_state_def)
  then show ?thesis
    using retained_list_bounded
      [of "[ingestAnomaly rt0 ''A'' None, ingestCustomAnomaly rt0 ''B'' None,
            ingestAnomaly rt0 ''A'' None]"]
    by simp
qed



section \<open>Eviction of the oldest entry\<close>

text \<open>
  C6. When the retained list already holds 10 notifications and a new notification with
  a message not yet in the list is ingested, exactly the oldest (last) entry is evicted:
  the new list is the new item followed by the old list without its last element, in the
  old order, and has 10 entries again. Ingesting the 12 distinct reports \<open>1\<close> to \<open>12\<close>
  (the decimal strings \<open>toString i\<close> of the numbers, call \<open>i\<close> in the environment \<open>rts i\<close>
  with the timestamp \<open>tss i\<close>) in order from the empty list yields the 10 messages
  \<open>12, 11, ..., 3\<close>: the reports \<open>1\<close> and \<open>2\<close> are evicted.
\<close>

theorem eviction_of_oldest:
  "(length (notifications st) = 10 \<and>
    \<not> list_ex (\<lambda>m. message m = message (newNotification rt r ts c)) (notifications st) \<longrightarrow>
      notifications (addNotification rt r ts c st) =
        newNotification rt r ts c # butlast (notifications st) \<and>
      length (notifications (addNotification rt r ts c st)) = 10) \<and>
   map message (notifications (run
     (map (\<lambda>i. ingestAnomaly (rts i) (toString i) (tss i)) [1..<13]) initial_state)) =
     [''12'', ''11'', ''10'', ''9'', ''8'', ''7'', ''6'', ''5'', ''4'', ''3'']"
proof (intro conjI impI)
  assume h: "length (notifications st) = 10 \<and>
    \<not> list_ex (\<lambda>m. message m = message (newNotification rt r ts c)) (notifications st)"
  then have "take 9 (notifications st) = butlast (notifications st)"
    by (simp add: butlast_conv_take)
  with h show "notifications (addNotification rt r ts c st) =
        newNotification rt r ts c # butlast (notifications st)"
    by (simp add: addNotification_notifications)
  from h show "length (notifications (addNotification rt r ts c st)) = 10"
    by (simp add: addNotification_notifications)
next
  show "map message (notifications (run
     (map (\<lambda>i. ingestAnomaly (rts i) (toString i) (tss i)) [1..<13]) initial_state)) =
     [''12'', ''11'', ''10'', ''9'', ''8'', ''7'', ''6'', ''5'', ''4'', ''3'']"
    unfolding run_def
    apply (simp add: upt_rec)
    apply (simp add: messages_addNotification initial_state_def toString.simps)
    done
qed

theorem eviction_of_oldest_witness:
  "length (notifications full_state) = 10 \<and>
   \<not> list_ex (\<lambda>m. message m = message (newNotification rt0 ''11'' None False))
       (notifications full_state) \<and>
   notifications (addNotification rt0 ''11'' None False full_state) =
     newNotification rt0 ''11'' None False # butlast (notifications full_state) \<and>
   length (notifications (addNotification rt0 ''11'' None False full_state)) = 10"
proof -
  have "length (map message (notifications full_state)) = 10"
    by (simp only: messages_full_state) simp
  then have l: "length (notifications full_state) = 10" by simp
  have u: "\<not> list_ex (\<lambda>m. message m = message (newNotification rt0 ''11'' None False))
       (notifications full_state)"
    by (simp add: list_ex_message messages_full_state message_newNotification)
  from eviction_of_oldest [of full_state rt0 "''11''" None False] l u
  show ?thesis by simp
qed

section \<open>Refreshing the anomaly snapshot\<close>

text \<open>
  C7, as stated: a fetched snapshot with \<open>has_anomaly = true\<close> and a non-empty report is
  always ingested. On the code the claim fails: line 70 also asks for \<open>data.success\<close>.
  A snapshot with \<open>success = false\<close> replaces the stored snapshot and nothing else: no
  notification, no alert.
\<close>

theorem unsuccessful_snapshot_not_ingested:
  "has_anomaly \<lparr>success = False, has_anomaly = True, report = ''Intruder'', timestamp = None\<rparr> \<and>
   report \<lparr>success = False, has_anomaly = True, report = ''Intruder'', timestamp = None\<rparr> \<noteq> [] \<and>
   fetchAnomalyData rt0
     (Resolved (Response True
        (Some \<lparr>success = False, has_anomaly = True, report = ''Intruder'', timestamp = None\<rparr>)))
     initial_state =
   initial_state\<lparr>anomalyData :=
     Some \<lparr>success = False, has_anomaly = True, report = ''Intruder'', timestamp = None\<rparr>\<rparr> \<and>
   notifications (fetchAnomalyData rt0
     (Resolved (Response True
        (Some \<lparr>success = False, has_anomaly = True, report = ''Intruder'', timestamp = None\<rparr>)))
     initial_state) = [] \<and>
   alerts (fetchAnomalyData rt0
     (Resolved (Response True
        (Some \<lparr>success = False, has_anomaly = True, report = ''Intruder'', timestamp = None\<rparr>)))
     initial_state) = [] \<and>
   alerts (addNotification rt0 ''Intruder'' None False
     (initial_state\<lparr>anomalyData :=
        Some \<lparr>success = False, has_anomaly = True, report = ''Intruder'', timestamp = None\<rparr>\<rparr>))
     \<noteq> []"
  by (simp add: fetchAnomalyData_def addNotification_alerts initial_state_def)

text \<open>
  C7, amended. For every successfully fetched snapshot (a response that is \<open>ok\<close> and
  parses), \<open>fetchAnomalyData\<close> stores the snapshot and invokes \<open>addNotification\<close> with the
  snapshot's report and timestamp whenever the snapshot carries \<open>success = true\<close>,
  \<open>has_anomaly = true\<close> and a non-empty report; when one of the three fails it stores the
  snapshot and ingests nothing.
\<close>

theorem snapshot_ingestion_condition:
  "(success d \<and> has_anomaly d \<and> report d \<noteq> [] \<longrightarrow>
      fetchAnomalyData rt (Resolved (Response True (Some d))) st =
        addNotification rt (report d) (timestamp d) False (st\<lparr>anomalyData := Some d\<rparr>)) \<and>
   (\<not> (success d \<and> has_anomaly d \<and> report d \<noteq> []) \<longrightarrow>
      fetchAnomalyData rt (Resolved (Response True (Some d))) st = st\<lparr>anomalyData := Some d\<rparr>)"
  by (auto simp: fetchAnomalyData_def Let_def)

theorem snapshot_ingestion_condition_witness:
  "success \<lparr>success = True, has_anomaly = True, report = ''Intruder'', timestamp = None\<rparr> \<and>
   has_anomaly \<lparr>success = True, has_anomaly = True, report = ''Intruder'', timestamp = None\<rparr> \<and>
   report \<lparr>success = True, has_anomaly = True, report = ''Intruder'', timestamp = None\<rparr> \<noteq> [] \<and>
   alerts (fetchAnomalyData rt0
     (Resolved (Response True
        (Some \<lparr>success = True, has_anomaly = True, report = ''Intruder'', timestamp = None\<rparr>)))
     initial_state) = [(''Anomaly Detected!'', ''Intruder'')] \<and>
   \<not> (success \<lparr>success = False, has_anomaly = True, report = ''Intruder'', timestamp = None\<rparr> \<and>
      has_anomaly \<lparr>success = False, has_anomaly = True, report = ''Intruder'', timestamp = None\<rparr> \<and>
      report \<lparr>success = False, has_anomaly = True, report = ''Intruder'', timestamp = None\<rparr> \<noteq> []) \<and>
   alerts (fetchAnomalyData rt0
     (Resolved (Response True
        (Some \<lparr>success = False, has_anomaly = True, report = ''Intruder'', timestamp = None\<rparr>)))
     initial_state) = []"
  using snapshot_ingestion_condition
      [of "\<lparr>success = True, has_anomaly = True, report = ''Intruder'', timestamp = None\<rparr>"
          rt0 initial_state]
    snapshot_ingestion_condition
      [of "\<lparr>success = False, has_anomaly = True, report = ''Intruder'', timestamp = None\<rparr>"
          rt0 initial_state]
  by (simp add: addNotification_alerts initial_state_def)

section \<open>Notification ids\<close>

text \<open>
  C8. The ids of two notifications created by \<open>addNotification\<close> should differ, also
  for two notifications of one batch. The id is \<open>Date.now().toString()\<close>, the clock in
  milliseconds: the two calls that \<open>forEach\<close> makes for a response with the two custom
  anomalies \<open>A\<close> and \<open>B\<close>, both within the millisecond 1700000000000, give both retained
  notifications the same id.
\<close>

theorem same_millisecond_ids_collide:
  "map nid (notifications (fetchCustomAnomalies (\<lambda>i. rt0)
      (Resolved (Response True (Some (JArray
         [\<lparr>anomaly = ''A'', custom_timestamp = None\<rparr>,
          \<lparr>anomaly = ''B'', custom_timestamp = None\<rparr>]))))
      initial_state)) = [''1700000000000'', ''1700000000000''] \<and>
   map message (notifications (fetchCustomAnomalies (\<lambda>i. rt0)
      (Resolved (Response True (Some (JArray
         [\<lparr>anomaly = ''A'', custom_timestamp = None\<rparr>,
          \<lparr>anomaly = ''B'', custom_timestamp = None\<rparr>]))))
      initial_state)) = [''B'', ''A'']"
  by (simp add: fetchCustomAnomalies_def addNotification_notifications message_newNotification
        initial_state_def rt0_def newNotification_def toString.simps)

section \<open>Frame conditions\<close>

text \<open>
  C9. If no anomaly snapshot has been fetched yet (the snapshot state is \<open>null\<close>),
  \<open>clearAnomalyFlag\<close> leaves it absent, whatever the outcome of the POST: the update
  \<open>prev ? {...prev, has_anomaly: false} : null\<close> reads no field of \<open>null\<close> and creates no
  snapshot; the whole state is as before.
\<close>

theorem acknowledge_absent_snapshot:
  "anomalyData st = None \<Longrightarrow>
   anomalyData (clearAnomalyFlag r st) = None \<and> clearAnomalyFlag r st = st"
  by (cases r) (simp_all add: clearAnomalyFlag_def)

theorem acknowledge_absent_snapshot_witness:
  "anomalyData initial_state = None \<and>
   anomalyData (clearAnomalyFlag (Resolved (Response True (None :: unit option))) initial_state)
     = None \<and>
   anomalyData (clearAnomalyFlag (Rejected :: unit fetch_result) initial_state) = None"
proof -
  have h: "anomalyData initial_state = None" by (simp add: initial_state_def)
  from acknowledge_absent_snapshot [OF h, of "Resolved (Response True (None :: unit option))"]
       acknowledge_absent_snapshot [OF h, of "Rejected :: unit fetch_result"] h
  show ?thesis by simp
qed

text \<open>
  C10. For every fetched response of \<open>fetchCustomAnomalies\<close> whose body is not an array,
  or is the empty array, no call of \<open>addNotification\<close> is made and the state is unchanged:
  the notification list, the anomaly snapshot, the system status snapshot, and the log of
  alerts as well.
\<close>

theorem custom_non_array_frame:
  "body = NonArray \<or> body = JArray [] \<Longrightarrow>
   fetchCustomAnomalies rts (Resolved (Response k (Some body))) st = st"
  by (auto simp: fetchCustomAnomalies_def)

theorem custom_non_array_frame_witness:
  "fetchCustomAnomalies (\<lambda>i. rt0) (Resolved (Response True (Some NonArray))) full_state =
     full_state \<and>
   fetchCustomAnomalies (\<lambda>i. rt0) (Resolved (Response True (Some (JArray [])))) full_state =
     full_state"
  using custom_non_array_frame [of NonArray "\<lambda>i. rt0" True full_state]
        custom_non_array_frame [of "JArray []" "\<lambda>i. rt0" True full_state]
  by simp

end
